theory Spec2Isabelle
  imports Complex_Main "HOL-Library.While_Combinator" "HOL-Library.Multiset"
begin

section \<open>Flattening nested lists (question\_2/flattenlist.py)\<close>

text \<open>
  A Python value, as far as \<^verbatim>\<open>flatten_list\<close> tells values apart: either a
  \<^verbatim>\<open>list\<close> (the only thing \<^verbatim>\<open>isinstance(x, list)\<close> accepts) or anything
  else, which the function treats as an opaque leaf. A datatype value is finite and
  has no cycles; the function only reads its input, so sharing between sublists is
  not observable.
\<close>

datatype 'a pyobj = Leaf 'a | PyList "'a pyobj list"

text \<open>
  The inner loop \<^verbatim>\<open>for index in xrange(len(current_element)-1, -1, -1):
  stack.append(current_element[index])\<close>. The indices run from the last one down to 0.
\<close>

definition push_reversed :: "'a pyobj list \<Rightarrow> 'a pyobj list \<Rightarrow> 'a pyobj list" where
  "push_reversed stack current_element =
     foldl (\<lambda>stack index. stack @ [current_element ! index]) stack
       (rev [0..<length current_element])"

text \<open>
  One iteration of the \<^verbatim>\<open>while\<close> loop on the pair of \<^verbatim>\<open>stack\<close> and
  \<^verbatim>\<open>result\<close>. The top of the Python stack is the end of the list:
  \<^verbatim>\<open>stack.pop()\<close> returns the last element and removes it. The body runs under the
  guard of the loop only, on a stack that is not empty.
\<close>

definition loop_body :: "'a pyobj list \<times> 'a list \<Rightarrow> 'a pyobj list \<times> 'a list" where
  "loop_body = (\<lambda>(stack, result).
     let current_element = last stack; stack = butlast stack in
     (case current_element of
        PyList elements \<Rightarrow> (push_reversed stack elements, result)
      | Leaf v \<Rightarrow> (stack, result @ [v])))"

text \<open>
  The function: the loop runs while the stack is not empty. \<open>None\<close> stands for a
  loop that never leaves.
\<close>

definition flatten_list :: "'a pyobj \<Rightarrow> 'a list option" where
  "flatten_list input_list =
     map_option snd
       (while_option (\<lambda>(stack, result). length stack > 0) loop_body ([input_list], []))"

text \<open>
  The specification's reading of the result: the leaves in depth-first, left-to-right
  order, and their number.
\<close>

fun preorder_leaves :: "'a pyobj \<Rightarrow> 'a list" where
  "preorder_leaves (Leaf v) = [v]"
| "preorder_leaves (PyList elements) = concat (map preorder_leaves elements)"

fun count_leaves :: "'a pyobj \<Rightarrow> nat" where
  "count_leaves (Leaf v) = 1"
| "count_leaves (PyList elements) = sum_list (map count_leaves elements)"

text \<open>Removing every empty list, at every depth, from the elements of a list.\<close>

fun drop_empty :: "'a pyobj \<Rightarrow> 'a pyobj" where
  "drop_empty (Leaf v) = Leaf v"
| "drop_empty (PyList elements) =
     PyList (filter (\<lambda>e. e \<noteq> PyList []) (map drop_empty elements))"

text \<open>
  What is left to do in a loop state: every value on the stack counts one for itself
  and, for a list, the size of each element.
\<close>

fun weight :: "'a pyobj \<Rightarrow> nat" where
  "weight (Leaf v) = 1"
| "weight (PyList elements) = Suc (sum_list (map weight elements))"

definition remaining :: "'a pyobj list \<Rightarrow> nat" where
  "remaining stack = sum_list (map weight stack)"

text \<open>
  The loop invariant: the result so far, followed by the leaves of the values on the
  stack read from its top, is the list of leaves of the input.
\<close>

definition pending :: "'a pyobj list \<times> 'a list \<Rightarrow> 'a list" where
  "pending s = snd s @ concat (map preorder_leaves (rev (fst s)))"

section \<open>Customers close to the office (question\_3/closecustomers.py)\<close>

subsection \<open>What the program takes from Python\<close>

text \<open>
  The exceptions that the calls of the program can raise. The program catches
  \<^verbatim>\<open>ValueError\<close> only; \<^verbatim>\<open>UnicodeEncodeError\<close> is a subclass of it.
\<close>

datatype error = ValueError | TypeError | KeyError | OverflowError | UnicodeEncodeError

text \<open>
  A value as \<^verbatim>\<open>json.loads\<close> returns it: \<^verbatim>\<open>None\<close>, a \<^verbatim>\<open>bool\<close>, an
  \<^verbatim>\<open>int\<close> or \<^verbatim>\<open>long\<close>, a \<^verbatim>\<open>float\<close>, a \<^verbatim>\<open>unicode\<close> string (held as its
  UTF-8 bytes), a \<^verbatim>\<open>list\<close> or a \<^verbatim>\<open>dict\<close> with string keys (an association list,
  read with \<open>map_of\<close>). The type \<open>'f\<close> is Python's \<^verbatim>\<open>float\<close>.
\<close>

datatype 'f json =
    JNone
  | JBool bool
  | JInt int
  | JFloat 'f
  | JStr string
  | JList "'f json list"
  | JDict "(string \<times> 'f json) list"

text \<open>
  The library functions that read text are not part of the repository; the model takes
  them as a parameter. \<open>json_loads\<close> is \<^verbatim>\<open>json.loads\<close> on one line (\<open>None\<close>: it
  raises \<^verbatim>\<open>ValueError\<close>), \<open>float_of_str\<close> is \<^verbatim>\<open>float\<close> on a string (\<open>None\<close>:
  \<^verbatim>\<open>ValueError\<close>, the string is not a number), \<open>float_of_int\<close> is \<^verbatim>\<open>float\<close> on an
  integer (\<open>None\<close>: \<^verbatim>\<open>OverflowError\<close>, the integer is too large).
\<close>

record 'f decoding =
  json_loads :: "string \<Rightarrow> 'f json option"
  float_of_str :: "string \<Rightarrow> 'f option"
  float_of_int :: "int \<Rightarrow> 'f option"






subsection \<open>The data\<close>

record 'f coordinate =
  latitude :: 'f
  longitude :: 'f

text \<open>
  \<^verbatim>\<open>Customer\<close> is a named tuple: its fields hold whatever they are given.
  \<^verbatim>\<open>parse_customer_data\<close> stores decoded JSON values as name and user id; the tests
  of \<^verbatim>\<open>format_customers\<close> build customers with a byte string and an integer.
\<close>

record ('n, 'u, 'f) customer =
  name :: 'n
  user_id :: 'u
  location :: "'f coordinate"




definition EXPECTED_KEYS :: "string list" where
  "EXPECTED_KEYS = [''name'', ''user_id'', ''latitude'', ''longitude'']"

subsection \<open>Python's operations on decoded values\<close>

fun is_substring :: "string \<Rightarrow> string \<Rightarrow> bool" where
  "is_substring k [] = (k = [])"
| "is_substring k (c # s) = (take (length k) (c # s) = k \<or> is_substring k s)"

text \<open>
  \<^verbatim>\<open>key in customer\<close> for a string key: the keys of a dict, the elements of a list,
  the substrings of a string; anything else is not iterable.
\<close>

fun py_contains :: "string \<Rightarrow> 'f json \<Rightarrow> error + bool" where
  "py_contains key (JDict d) = Inr (map_of d key \<noteq> None)"
| "py_contains key (JList xs) = Inr (JStr key \<in> set xs)"
| "py_contains key (JStr s) = Inr (is_substring key s)"
| "py_contains key _ = Inl TypeError"

text \<open>
  \<^verbatim>\<open>customer[key]\<close> for a string key: only a dict can be indexed by a string.
\<close>

fun py_getitem :: "'f json \<Rightarrow> string \<Rightarrow> error + 'f json" where
  "py_getitem (JDict d) key = (case map_of d key of None \<Rightarrow> Inl KeyError | Some v \<Rightarrow> Inr v)"
| "py_getitem _ key = Inl TypeError"

text \<open>
  \<^verbatim>\<open>float(v)\<close>: a float is itself, an integer or a bool (a subclass of \<^verbatim>\<open>int\<close>) is
  converted, a string is parsed, and \<^verbatim>\<open>None\<close>, a list or a dict is a
  \<^verbatim>\<open>TypeError\<close>.
\<close>

fun py_float :: "'f decoding \<Rightarrow> 'f json \<Rightarrow> error + 'f" where
  "py_float D (JFloat x) = Inr x"
| "py_float D (JInt n) =
     (case float_of_int D n of None \<Rightarrow> Inl OverflowError | Some x \<Rightarrow> Inr x)"
| "py_float D (JBool b) =
     (case float_of_int D (if b then 1 else 0) of None \<Rightarrow> Inl OverflowError | Some x \<Rightarrow> Inr x)"
| "py_float D (JStr s) =
     (case float_of_str D s of None \<Rightarrow> Inl ValueError | Some x \<Rightarrow> Inr x)"
| "py_float D _ = Inl TypeError"

text \<open>
  The arguments of the warning about missing keys, \<^verbatim>\<open>EXPECTED_KEYS - set(customer)\<close>
  and \<^verbatim>\<open>str(customer)\<close>, are evaluated before the call: a list with a list or a
  dict among its elements cannot be made a set, and a \<^verbatim>\<open>unicode\<close> string with a
  character outside ASCII cannot be made a \<^verbatim>\<open>str\<close>. The log itself is not modelled.
\<close>

fun unhashable :: "'f json \<Rightarrow> bool" where
  "unhashable (JList xs) = True"
| "unhashable (JDict d) = True"
| "unhashable _ = False"

fun missing_keys_warning :: "'f json \<Rightarrow> error option" where
  "missing_keys_warning (JList xs) = (if list_ex unhashable xs then Some TypeError else None)"
| "missing_keys_warning (JStr s) =
     (if list_ex (\<lambda>c. 128 \<le> (of_char c :: nat)) s then Some UnicodeEncodeError else None)"
| "missing_keys_warning _ = None"

subsection \<open>Validation and parsing\<close>

text \<open>
  \<^verbatim>\<open>all(key in customer for key in EXPECTED_KEYS)\<close>: the keys one after the other,
  stopping at the first that is missing or at the first exception.
\<close>

fun has_required_keys :: "string list \<Rightarrow> 'f json \<Rightarrow> error + bool" where
  "has_required_keys [] customer = Inr True"
| "has_required_keys (key # keys) customer =
     (case py_contains key customer of
        Inl e \<Rightarrow> Inl e
      | Inr present \<Rightarrow> if present then has_required_keys keys customer else Inr False)"

text \<open>
  One of the two \<^verbatim>\<open>try: float(customer[key]) except ValueError: return False\<close>
  blocks: \<open>Inr True\<close> when the value parses, \<open>Inr False\<close> when \<^verbatim>\<open>ValueError\<close> was
  caught, \<open>Inl e\<close> for any other exception, which the block lets through.
\<close>

definition parses_as_float :: "'f decoding \<Rightarrow> 'f json \<Rightarrow> string \<Rightarrow> error + bool" where
  "parses_as_float D customer key =
     (case py_getitem customer key of
        Inl e \<Rightarrow> (if e = ValueError then Inr False else Inl e)
      | Inr v \<Rightarrow>
          (case py_float D v of
             Inl e \<Rightarrow> (if e = ValueError then Inr False else Inl e)
           | Inr x \<Rightarrow> Inr True))"

definition validate_customer :: "'f decoding \<Rightarrow> 'f json \<Rightarrow> error + bool" where
  "validate_customer D customer =
     (case has_required_keys EXPECTED_KEYS customer of
        Inl e \<Rightarrow> Inl e
      | Inr customer_has_required_keys \<Rightarrow>
          if \<not> customer_has_required_keys then
            (case missing_keys_warning customer of Some e \<Rightarrow> Inl e | None \<Rightarrow> Inr False)
          else
            (case parses_as_float D customer ''latitude'' of
               Inl e \<Rightarrow> Inl e
             | Inr lat_ok \<Rightarrow>
                 if \<not> lat_ok then Inr False
                 else
                   (case parses_as_float D customer ''longitude'' of
                      Inl e \<Rightarrow> Inl e
                    | Inr lon_ok \<Rightarrow> if \<not> lon_ok then Inr False else Inr True)))"

text \<open>
  The body of the loop of \<^verbatim>\<open>parse_customer_data\<close> after validation: the two
  conversions to float and the three reads of the record, each of which can raise.
\<close>

definition make_customer ::
    "'f decoding \<Rightarrow> 'f json \<Rightarrow> error + ('f json, 'f json, 'f) customer" where
  "make_customer D customer_data =
     (case py_getitem customer_data ''latitude'' of Inl e \<Rightarrow> Inl e | Inr lat_v \<Rightarrow>
      case py_float D lat_v of Inl e \<Rightarrow> Inl e | Inr lat \<Rightarrow>
      case py_getitem customer_data ''longitude'' of Inl e \<Rightarrow> Inl e | Inr lon_v \<Rightarrow>
      case py_float D lon_v of Inl e \<Rightarrow> Inl e | Inr lon \<Rightarrow>
      case py_getitem customer_data ''name'' of Inl e \<Rightarrow> Inl e | Inr n \<Rightarrow>
      case py_getitem customer_data ''user_id'' of Inl e \<Rightarrow> Inl e | Inr u \<Rightarrow>
      Inr \<lparr>name = n, user_id = u, location = \<lparr>latitude = lat, longitude = lon\<rparr>\<rparr>)"

text \<open>
  The loop over the lines, with the list \<^verbatim>\<open>customers\<close> it appends to. A line that
  does not decode is skipped (\<^verbatim>\<open>except ValueError: continue\<close>), and so is a record
  that does not validate; the calls of \<^verbatim>\<open>validate_customer\<close>, \<^verbatim>\<open>float\<close> and
  \<^verbatim>\<open>Customer\<close> are outside every \<^verbatim>\<open>try\<close>.
\<close>

fun parse_loop ::
    "'f decoding \<Rightarrow> string list \<Rightarrow> ('f json, 'f json, 'f) customer list \<Rightarrow>
     error + ('f json, 'f json, 'f) customer list" where
  "parse_loop D [] customers = Inr customers"
| "parse_loop D (customer_json # rest) customers =
     (case json_loads D customer_json of
        None \<Rightarrow> parse_loop D rest customers
      | Some customer_data \<Rightarrow>
          (case validate_customer D customer_data of
             Inl e \<Rightarrow> Inl e
           | Inr valid \<Rightarrow>
               if \<not> valid then parse_loop D rest customers
               else
                 (case make_customer D customer_data of
                    Inl e \<Rightarrow> Inl e
                  | Inr customer \<Rightarrow> parse_loop D rest (customers @ [customer]))))"

definition parse_customer_data ::
    "'f decoding \<Rightarrow> string list \<Rightarrow> error + ('f json, 'f json, 'f) customer list" where
  "parse_customer_data D all_customers_json = parse_loop D all_customers_json []"

text \<open>
  The records the program is written for: a dict whose latitude and longitude, where
  present, are strings or floats. \<open>parsed_line\<close> is the customer a line contributes,
  if any: the line decodes, the record validates and the customer can be built.
\<close>

fun text_or_float :: "'f json \<Rightarrow> bool" where
  "text_or_float (JStr s) = True"
| "text_or_float (JFloat x) = True"
| "text_or_float _ = False"

definition plain_record :: "'f json \<Rightarrow> bool" where
  "plain_record v =
     (case v of
        JDict d \<Rightarrow>
          (case map_of d ''latitude'' of None \<Rightarrow> True | Some lat \<Rightarrow> text_or_float lat) \<and>
          (case map_of d ''longitude'' of None \<Rightarrow> True | Some lon \<Rightarrow> text_or_float lon)
      | _ \<Rightarrow> False)"

definition parsed_line :: "'f decoding \<Rightarrow> string \<Rightarrow> ('f json, 'f json, 'f) customer option" where
  "parsed_line D customer_json =
     (case json_loads D customer_json of
        None \<Rightarrow> None
      | Some customer_data \<Rightarrow>
          if validate_customer D customer_data = Inr True then
            (case make_customer D customer_data of Inl e \<Rightarrow> None | Inr customer \<Rightarrow> Some customer)
          else None)"

subsection \<open>Distance, filter and output\<close>








section \<open>Properties of the flattening loop\<close>

lemma push_reversed_eq: "push_reversed stack xs = stack @ rev xs"
proof -
  have "foldl (\<lambda>st i. st @ [xs ! i]) stack (rev is) = stack @ rev (map ((!) xs) is)"
    for "is" :: "nat list"
    by (induction "is" arbitrary: stack) simp_all
  from this [of "[0..<length xs]"] show ?thesis
    by (simp add: push_reversed_def map_nth)
qed

lemma loop_body_leaf: "loop_body (stack @ [Leaf v], result) = (stack, result @ [v])"
  by (simp add: loop_body_def)

lemma loop_body_list:
  "loop_body (stack @ [PyList elements], result) = (stack @ rev elements, result)"
  by (simp add: loop_body_def push_reversed_eq)

lemma remaining_append: "remaining (xs @ ys) = remaining xs + remaining ys"
  by (simp add: remaining_def)

lemma remaining_rev: "remaining (rev xs) = remaining xs"
  by (simp add: remaining_def rev_map [symmetric])

text \<open>
  Every iteration makes the stack lighter: a leaf is removed, or a list is replaced by
  its elements, which together weigh one less than the list.
\<close>

lemma loop_body_decreases:
  assumes "stack \<noteq> []"
  shows "remaining (fst (loop_body (stack, result))) < remaining stack"
proof -
  from assms obtain st x where stack: "stack = st @ [x]"
    by (metis append_butlast_last_id)
  show ?thesis
  proof (cases x)
    case (Leaf v)
    with stack show ?thesis
      by (simp add: loop_body_leaf remaining_append) (simp add: remaining_def)
  next
    case (PyList elements)
    with stack show ?thesis
      by (simp add: loop_body_list remaining_append remaining_rev) (simp add: remaining_def)
  qed
qed

lemma loop_terminates:
  "\<exists>t. while_option (\<lambda>(stack, result). length stack > 0) loop_body s = Some t"
proof (rule measure_while_option_Some [where P = "\<lambda>s. True" and f = "\<lambda>s. remaining (fst s)"])
  fix s :: "'a pyobj list \<times> 'a list"
  assume "case s of (stack, result) \<Rightarrow> length stack > 0"
  then show "True \<and> remaining (fst (loop_body s)) < remaining (fst s)"
    by (cases s) (simp add: loop_body_decreases)
qed simp

lemma loop_body_pending:
  assumes "stack \<noteq> []"
  shows "pending (loop_body (stack, result)) = pending (stack, result)"
proof -
  from assms obtain st x where stack: "stack = st @ [x]"
    by (metis append_butlast_last_id)
  show ?thesis
  proof (cases x)
    case (Leaf v)
    with stack show ?thesis
      by (simp add: loop_body_leaf pending_def)
  next
    case (PyList elements)
    with stack show ?thesis
      by (simp add: loop_body_list pending_def)
  qed
qed

lemma loop_result:
  "while_option (\<lambda>(stack, result). length stack > 0) loop_body ([x], []) =
     Some ([], preorder_leaves x)"
proof -
  let ?b = "\<lambda>(stack, result). length stack > 0"
  obtain t where t: "while_option ?b loop_body ([x], []) = Some t"
    using loop_terminates by blast
  have "pending t = pending ([x], [])"
  proof (rule while_option_rule [where P = "\<lambda>s. pending s = pending ([x], [])", OF _ t])
    fix s :: "'a pyobj list \<times> 'a list"
    assume "pending s = pending ([x], [])" and "?b s"
    then show "pending (loop_body s) = pending ([x], [])"
      by (cases s) (simp add: loop_body_pending)
  qed simp
  moreover from while_option_stop [OF t] have "fst t = []"
    by (cases t) simp
  ultimately have "t = ([], preorder_leaves x)"
    by (cases t) (simp add: pending_def)
  with t show ?thesis
    by simp
qed

lemma flatten_list_eq: "flatten_list x = Some (preorder_leaves x)"
  unfolding flatten_list_def by (subst loop_result) simp

lemma length_preorder_leaves: "length (preorder_leaves x) = count_leaves x"
  by (induction x) (simp_all add: length_concat comp_def cong: map_cong)

lemma preorder_leaves_flat: "concat (map (preorder_leaves \<circ> Leaf) vs) = vs"
  by (induction vs) simp_all

lemma concat_leaves_filter:
  "concat (map preorder_leaves (filter (\<lambda>e. e \<noteq> PyList []) ys)) =
     concat (map preorder_leaves ys)"
  by (induction ys) auto

lemma preorder_drop_empty: "preorder_leaves (drop_empty x) = preorder_leaves x"
proof (induction x)
  case (Leaf v)
  show ?case by simp
next
  case (PyList elements)
  then have "map preorder_leaves (map drop_empty elements) = map preorder_leaves elements"
    by simp
  then show ?case
    by (simp only: drop_empty.simps preorder_leaves.simps concat_leaves_filter)
qed

text \<open>
  The cases of the repository's tests, run on the loop itself. Leaves of two kinds are
  integers or strings.
\<close>

lemma test_empty_list: "flatten_list (PyList [PyList [], PyList []]) = Some ([] :: int list)"
  by (simp add: flatten_list_def while_option_unfold loop_body_def push_reversed_def)

lemma test_flat_list:
  "flatten_list (PyList [Leaf 1, Leaf 2, Leaf 3]) = Some [1, 2, 3 :: int]"
  by (simp add: flatten_list_def while_option_unfold loop_body_def push_reversed_def)

lemma test_depth_one:
  "flatten_list (PyList [Leaf 1, PyList [Leaf 1, Leaf 2], Leaf 3]) = Some [1, 1, 2, 3 :: int]"
  by (simp add: flatten_list_def while_option_unfold loop_body_def push_reversed_def)

lemma test_depth_two:
  "flatten_list (PyList [Leaf 1, PyList [Leaf 2, PyList [Leaf 3], Leaf 4], Leaf 5]) =
     Some [1, 2, 3, 4, 5 :: int]"
  by (simp add: flatten_list_def while_option_unfold loop_body_def push_reversed_def)

lemma test_depth_three:
  "flatten_list (PyList [PyList [PyList [PyList [Leaf 1]]]]) = Some [1 :: int]"
  by (simp add: flatten_list_def while_option_unfold loop_body_def push_reversed_def)

lemma test_different_types:
  "flatten_list (PyList [Leaf (Inl 1), PyList [Leaf (Inr ''a''), Leaf (Inl 2)], Leaf (Inr ''b'')]) =
     Some [Inl 1, Inr ''a'', Inl 2, Inr ''b'' :: int + string]"
  by (simp add: flatten_list_def while_option_unfold loop_body_def push_reversed_def)

text \<open>
  C3. For every finite nesting of lists and leaves, \<open>flatten_list\<close> returns the leaves
  in depth-first, left-to-right order, and so as many elements as the input has leaves.
\<close>

theorem flatten_list_preorder:
  "flatten_list input_list = Some (preorder_leaves input_list) \<and>
   length (preorder_leaves input_list) = count_leaves input_list"
proof
  have "while_option (\<lambda>(stack, result). length stack > 0) loop_body ([input_list], []) =
      Some ([], preorder_leaves input_list)"
    by (rule loop_result)
  then show "flatten_list input_list = Some (preorder_leaves input_list)"
    unfolding flatten_list_def by simp
  show "length (preorder_leaves input_list) = count_leaves input_list"
    by (rule length_preorder_leaves)
qed

theorem flatten_list_preorder_witness:
  "flatten_list (PyList [Leaf (1::int), PyList [Leaf 2, PyList [Leaf 3], Leaf 4], Leaf 5]) =
     Some [1, 2, 3, 4, 5] \<and>
   length [1, 2, 3, 4, 5 :: int] =
     count_leaves (PyList [Leaf (1::int), PyList [Leaf 2, PyList [Leaf 3], Leaf 4], Leaf 5])"
  using flatten_list_preorder
    [of "PyList [Leaf (1::int), PyList [Leaf 2, PyList [Leaf 3], Leaf 4], Leaf 5]"]
  by simp

text \<open>
  C4. A list of leaves is returned as it is, so the empty list gives the empty list
  and flattening a flattened list changes nothing; lists without elements, at any
  depth and wherever they are inserted, add nothing to the output.
\<close>

theorem flatten_list_flat_idempotent:
  "flatten_list (PyList (map Leaf vs)) = Some vs \<and>
   flatten_list (PyList []) = Some ([] :: 'a list) \<and>
   (\<exists>ys. flatten_list x = Some ys \<and> flatten_list (PyList (map Leaf ys)) = Some ys) \<and>
   flatten_list (drop_empty x) = flatten_list x \<and>
   flatten_list (PyList (before @ [PyList []] @ after)) = flatten_list (PyList (before @ after))"
proof (intro conjI)
  show "flatten_list (PyList (map Leaf vs)) = Some vs"
    by (simp add: flatten_list_eq preorder_leaves_flat)
  show "flatten_list (PyList []) = Some ([] :: 'a list)"
    by (simp add: flatten_list_eq)
  have "flatten_list (PyList (map Leaf (preorder_leaves x))) = Some (preorder_leaves x)"
    by (simp add: flatten_list_eq preorder_leaves_flat)
  then show "\<exists>ys. flatten_list x = Some ys \<and> flatten_list (PyList (map Leaf ys)) = Some ys"
    by (simp add: flatten_list_eq)
  show "flatten_list (drop_empty x) = flatten_list x"
    by (simp add: flatten_list_eq preorder_drop_empty)
  show "flatten_list (PyList (before @ [PyList []] @ after)) =
      flatten_list (PyList (before @ after))"
    by (simp add: flatten_list_eq)
qed

theorem flatten_list_flat_idempotent_witness:
  "flatten_list (PyList (map Leaf [1, 2, 3 :: int])) = Some [1, 2, 3] \<and>
   flatten_list (PyList []) = Some ([] :: int list) \<and>
   (\<exists>ys. flatten_list (PyList [Leaf (1::int), PyList [Leaf 1, Leaf 2], Leaf 3]) = Some ys \<and>
      flatten_list (PyList (map Leaf ys)) = Some ys) \<and>
   flatten_list (PyList [PyList [], PyList [PyList []], Leaf (1::int)]) =
     flatten_list (PyList [Leaf 1])"
proof -
  note t = flatten_list_flat_idempotent
    [of "[1, 2, 3 :: int]" "PyList [Leaf (1::int), PyList [Leaf 1, Leaf 2], Leaf 3]" "[]" "[]"]
  note u = flatten_list_flat_idempotent
    [of "[]" "PyList [PyList [], PyList [PyList []], Leaf (1::int)]" "[]" "[]"]
  from u have "flatten_list (drop_empty (PyList [PyList [], PyList [PyList []], Leaf (1::int)])) =
    flatten_list (PyList [PyList [], PyList [PyList []], Leaf (1::int)])"
    by blast
  then have "flatten_list (PyList [PyList [], PyList [PyList []], Leaf (1::int)]) =
    flatten_list (PyList [Leaf 1])"
    by simp
  with t show ?thesis
    by blast
qed

text \<open>
  C10. The loop of \<open>flatten_list\<close> leaves on every input, with an empty stack, because
  every iteration lowers the weight of what is on the stack.
\<close>

theorem flatten_list_terminates:
  "(\<exists>result.
      while_option (\<lambda>(stack, result). length stack > 0) loop_body ([input_list], []) =
        Some ([], result) \<and>
      flatten_list input_list = Some result) \<and>
   (\<forall>stack result. stack \<noteq> [] \<longrightarrow>
      remaining (fst (loop_body (stack, result))) < remaining stack)"
proof -
  have "while_option (\<lambda>(stack, result). length stack > 0) loop_body ([input_list], []) =
      Some ([], preorder_leaves input_list) \<and>
    flatten_list input_list = Some (preorder_leaves input_list)"
    using loop_result [of input_list] flatten_list_eq [of input_list] by (rule conjI)
  then show ?thesis
    using loop_body_decreases by blast
qed

theorem flatten_list_terminates_witness:
  "(\<exists>result. flatten_list (PyList [PyList [PyList [PyList [Leaf (1::int)]]]]) = Some result) \<and>
   remaining (fst (loop_body ([Leaf (2::int), PyList [Leaf 1]], []))) <
     remaining [Leaf (2::int), PyList [Leaf 1]]"
proof -
  note t = flatten_list_terminates [of "PyList [PyList [PyList [PyList [Leaf (1::int)]]]]"]
  from t have "\<exists>result. flatten_list (PyList [PyList [PyList [PyList [Leaf (1::int)]]]]) =
    Some result"
    by blast
  moreover from t have "[Leaf (2::int), PyList [Leaf 1]] \<noteq> [] \<longrightarrow>
    remaining (fst (loop_body ([Leaf (2::int), PyList [Leaf 1]], []))) <
      remaining [Leaf (2::int), PyList [Leaf 1]]"
    by blast
  ultimately show ?thesis
    by simp
qed

section \<open>Properties of validation and parsing\<close>

text \<open>
  \<^verbatim>\<open>EXPECTED_KEYS\<close> is a set and \<^verbatim>\<open>all\<close> reads it in no fixed order. The order
  makes no difference: membership raises for every key or for none.
\<close>

lemma has_required_keys_order:
  assumes "set keys' = set keys"
  shows "has_required_keys keys' customer = has_required_keys keys customer"
proof -
  have scalar: "has_required_keys ks customer = (if ks = [] then Inr True else Inl TypeError)"
    if "\<And>k. py_contains k customer = Inl TypeError" for ks
    using that by (cases ks) simp_all
  have container: "has_required_keys ks customer = Inr (\<forall>k \<in> set ks. f k)"
    if "\<And>k. py_contains k customer = Inr (f k)" for ks f
    using that by (induction ks) simp_all
  have empty: "keys' = [] \<longleftrightarrow> keys = []"
    using assms by (metis set_empty)
  show ?thesis
  proof (cases customer)
    case (JStr s)
    then show ?thesis
      using container [of "\<lambda>k. is_substring k s"] assms by simp
  next
    case (JList xs)
    then show ?thesis
      using container [of "\<lambda>k. JStr k \<in> set xs"] assms by simp
  next
    case (JDict d)
    then show ?thesis
      using container [of "\<lambda>k. map_of d k \<noteq> None"] assms by simp
  next
    case JNone
    then have "py_contains k customer = Inl TypeError" for k
      by simp
    then show ?thesis
      using empty by (simp add: scalar)
  next
    case (JBool b)
    then have "py_contains k customer = Inl TypeError" for k
      by simp
    then show ?thesis
      using empty by (simp add: scalar)
  next
    case (JInt n)
    then have "py_contains k customer = Inl TypeError" for k
      by simp
    then show ?thesis
      using empty by (simp add: scalar)
  next
    case (JFloat x)
    then have "py_contains k customer = Inl TypeError" for k
      by simp
    then show ?thesis
      using empty by (simp add: scalar)
  qed
qed

text \<open>
  On the records the program is written for, validation answers and never raises: true
  exactly when the four keys are there and both coordinates read as floats.
\<close>

lemma py_float_text_or_float:
  "text_or_float v \<Longrightarrow> py_float D v = Inl ValueError \<or> (\<exists>x. py_float D v = Inr x)"
  by (cases v) (auto split: option.splits)

lemma has_required_keys_dict:
  "has_required_keys keys (JDict d) = Inr (\<forall>k \<in> set keys. map_of d k \<noteq> None)"
  by (induction keys) simp_all

lemma parses_as_float_plain:
  assumes "map_of d key = Some v" and "text_or_float v"
  shows "parses_as_float D (JDict d) key = Inr (\<exists>x. py_float D v = Inr x)"
  using assms py_float_text_or_float [OF assms(2), of D]
  by (auto simp: parses_as_float_def)

lemma validate_customer_plain:
  assumes "plain_record (JDict d)"
  shows "validate_customer D (JDict d) =
    Inr (\<exists>n u lat lon x y.
      map_of d ''name'' = Some n \<and> map_of d ''user_id'' = Some u \<and>
      map_of d ''latitude'' = Some lat \<and> map_of d ''longitude'' = Some lon \<and>
      py_float D lat = Inr x \<and> py_float D lon = Inr y)"
proof (cases "\<forall>k \<in> set EXPECTED_KEYS. map_of d k \<noteq> None")
  case False
  then show ?thesis
    by (auto simp: validate_customer_def has_required_keys_dict EXPECTED_KEYS_def)
next
  case True
  then obtain n u lat lon where k: "map_of d ''name'' = Some n" "map_of d ''user_id'' = Some u"
    "map_of d ''latitude'' = Some lat" "map_of d ''longitude'' = Some lon"
    by (auto simp: EXPECTED_KEYS_def)
  with assms have t: "text_or_float lat" "text_or_float lon"
    by (simp_all add: plain_record_def)
  show ?thesis
    using True k
    by (simp add: validate_customer_def has_required_keys_dict
        parses_as_float_plain [OF k(3) t(1)] parses_as_float_plain [OF k(4) t(2)])
qed

lemma make_customer_valid:
  assumes "validate_customer D (JDict d) = Inr True" and "plain_record (JDict d)"
  shows "\<exists>c. make_customer D (JDict d) = Inr c"
  using assms by (auto simp: validate_customer_plain make_customer_def)

text \<open>
  On lines that decode to such records or do not decode at all, parsing never raises,
  and the result is the customers of the lines that validate, in the order of the
  lines.
\<close>

lemma parse_loop_plain_eq:
  assumes "\<forall>l \<in> set lines. \<forall>v. json_loads D l = Some v \<longrightarrow> plain_record v"
  shows "parse_loop D lines customers = Inr (customers @ List.map_filter (parsed_line D) lines)"
  using assms
proof (induction lines arbitrary: customers)
  case Nil
  show ?case by (simp add: List.map_filter_simps)
next
  case (Cons l ls)
  then have IH: "parse_loop D ls cs = Inr (cs @ List.map_filter (parsed_line D) ls)" for cs
    by simp
  show ?case
  proof (cases "json_loads D l")
    case None
    then have "parsed_line D l = None"
      by (simp add: parsed_line_def)
    with None show ?thesis
      by (simp add: IH List.map_filter_simps)
  next
    case (Some v)
    with Cons.prems have p: "plain_record v"
      by simp
    then obtain d where v: "v = JDict d"
      by (auto simp: plain_record_def split: json.splits)
    from p v obtain ok where ok: "validate_customer D v = Inr ok"
      using validate_customer_plain by blast
    show ?thesis
    proof (cases ok)
      case False
      with Some ok have "parsed_line D l = None"
        by (simp add: parsed_line_def)
      with Some ok False show ?thesis
        by (simp add: IH List.map_filter_simps)
    next
      case True
      with ok p v obtain c where "make_customer D v = Inr c"
        using make_customer_valid [of D d] by auto
      moreover from this Some ok True have "parsed_line D l = Some c"
        by (simp add: parsed_line_def)
      ultimately show ?thesis
        using Some ok True by (simp add: IH List.map_filter_simps)
    qed
  qed
qed

lemma parse_customer_data_plain:
  assumes "\<forall>l \<in> set lines. \<forall>v. json_loads D l = Some v \<longrightarrow> plain_record v"
  shows "parse_customer_data D lines = Inr (List.map_filter (parsed_line D) lines)"
  using parse_loop_plain_eq [OF assms, of "[]"] by (simp add: parse_customer_data_def)

text \<open>The cases of the repository's tests.\<close>

lemma test_validate_customer_missing_keys:
  "validate_customer D (JDict [(''name'', JStr ''Hodor'')]) = Inr False"
  by (simp add: validate_customer_def EXPECTED_KEYS_def)

lemma test_validate_customer_invalid_latitude:
  assumes "float_of_str D ''invalid'' = None"
  shows "validate_customer D
    (JDict [(''name'', JStr ''Dany Targaryen''), (''user_id'', JInt 1),
            (''longitude'', JStr ''invalid''), (''latitude'', JStr ''invalid'')]) = Inr False"
  using assms by (simp add: validate_customer_def EXPECTED_KEYS_def parses_as_float_def)

lemma test_validate_customer:
  assumes "float_of_str D ''53.3498'' = Some x" and "float_of_str D ''-6.3'' = Some y"
  shows "validate_customer D
    (JDict [(''name'', JStr ''Jon Snow''), (''user_id'', JInt 1),
            (''longitude'', JStr ''53.3498''), (''latitude'', JStr ''-6.3'')]) = Inr True"
  using assms by (simp add: validate_customer_def EXPECTED_KEYS_def parses_as_float_def)

lemma test_parse_customer_data:
  assumes "json_loads D valid_input =
      Some (JDict [(''latitude'', JStr ''51.92893''), (''user_id'', JInt 1),
                   (''name'', JStr ''Alice Cahill''), (''longitude'', JStr ''-10.27699'')])"
    and "json_loads D [] = None"
    and "float_of_str D ''51.92893'' = Some x" and "float_of_str D ''-10.27699'' = Some y"
  shows "parse_customer_data D [valid_input, []] =
    Inr [\<lparr>name = JStr ''Alice Cahill'', user_id = JInt 1,
          location = \<lparr>latitude = x, longitude = y\<rparr>\<rparr>]"
  using assms
  by (simp add: parse_customer_data_def validate_customer_def EXPECTED_KEYS_def
      parses_as_float_def make_customer_def)

text \<open>
  C5. The claim wants \<open>validate_customer\<close> to answer false, and never to raise, when a
  latitude cannot be read as a float. A record with all four keys whose latitude is
  \<^verbatim>\<open>None\<close> (the JSON \<^verbatim>\<open>null\<close>) makes \<^verbatim>\<open>float\<close> raise \<^verbatim>\<open>TypeError\<close>, which the
  \<^verbatim>\<open>except ValueError\<close> of the function does not catch.
\<close>

theorem validate_customer_null_latitude:
  "validate_customer D
     (JDict [(''name'', JStr ''Hodor''), (''user_id'', JInt 1),
             (''latitude'', JNone), (''longitude'', JStr ''-6.3'')]) = Inl TypeError"
  by (simp add: validate_customer_def EXPECTED_KEYS_def parses_as_float_def)

text \<open>
  C6. The claim wants \<open>parse_customer_data\<close> to drop every bad record and go on. A line
  that decodes to the record above ends the whole call with \<^verbatim>\<open>TypeError\<close>, whatever
  lines follow: \<open>validate_customer\<close> is called outside the \<^verbatim>\<open>try\<close>.
\<close>

theorem parse_customer_data_null_latitude:
  assumes "json_loads D line =
     Some (JDict [(''name'', JStr ''Hodor''), (''user_id'', JInt 1),
                  (''latitude'', JNone), (''longitude'', JStr ''-6.3'')])"
  shows "parse_customer_data D (line # rest) = Inl TypeError"
  using assms
  by (simp add: parse_customer_data_def validate_customer_def EXPECTED_KEYS_def
      parses_as_float_def)

theorem parse_customer_data_null_latitude_witness:
  \<open>parse_customer_data
     \<lparr>json_loads = (\<lambda>s.
          if s = ''{"name": "Hodor", "user_id": 1, "latitude": null, "longitude": "-6.3"}''
          then Some (JDict [(''name'', JStr ''Hodor''), (''user_id'', JInt 1),
                            (''latitude'', JNone), (''longitude'', JStr ''-6.3'')])
          else None),
       float_of_str = (\<lambda>s. None :: real option),
       float_of_int = (\<lambda>n. Some (of_int n))\<rparr>
     [''{"name": "Hodor", "user_id": 1, "latitude": null, "longitude": "-6.3"}''] =
   Inl TypeError\<close>
  by (rule parse_customer_data_null_latitude) simp

section \<open>Properties of the distance and the filter\<close>



subsection \<open>Exact arithmetic\<close>





subsection \<open>The filter\<close>







section \<open>Properties of the output\<close>





end
